theory Spec2Isabelle
  imports Main
begin

section \<open>Requests, responses and the store\<close>

text \<open>
  The repository is a Django project with two applications, \<open>gallery\<close> and
  \<open>hello\<close>. A handler is modelled as a function from the request and the store
  (database rows and media files) to what it returns or raises, together with the store it
  leaves behind.
\<close>

type_synonym querydict = "(string \<times> string) list"

record uploaded_file =
  file_name :: string
  file_content :: string

type_synonym multifiles = "(string \<times> uploaded_file) list"

text \<open>
  \<open>request.method\<close> (the field \<open>http_method\<close>, an upper-case string as the server
  hands it over), \<open>request.POST\<close> and \<open>request.FILES\<close>.
\<close>

record request =
  http_method :: string
  POST :: querydict
  FILES :: multifiles

text \<open>
  A \<open>Post\<close> row has an implicit identity and an image file reference; a \<open>Message\<close>
  row has the two fields declared in \<open>hello/models.py\<close>. The date column is
  nullable in the model only so that a missing value is visible; the insert below refuses it.
\<close>

record post =
  post_id :: nat
  image_file :: string

record message =
  message_text :: string
  date :: "nat option"

record store =
  posts :: "post list"
  messages :: "message list"
  media :: "(string \<times> string) list"

definition empty_store :: store where
  "empty_store = \<lparr>posts = [], messages = [], media = []\<rparr>"

text \<open>\<open>UploadForm()\<close> is the unbound form, \<open>UploadForm(request.POST, request.FILES)\<close> the bound one.\<close>

datatype form = Unbound | Bound querydict multifiles

datatype context_value = FormV form | PostsV "post list" | MessagesV "message list"

type_synonym template_context = "(string \<times> context_value) list"

datatype response =
    Rendered string template_context
  | HttpResponseRedirect string
  | HttpResponseNotAllowed "string list"
  | HttpResponse string

fun status_code :: "response \<Rightarrow> nat" where
  "status_code (Rendered t c) = 200"
| "status_code (HttpResponseRedirect u) = 302"
| "status_code (HttpResponseNotAllowed ms) = 405"
| "status_code (HttpResponse b) = 200"

datatype error = ValueError | NoReverseMatch | ValidationError | IntegrityError | Resolver404

datatype outcome = Raise error | Return response

section \<open>The URL tables\<close>

datatype view = V_PostListView | V_image_upload | V_success | V_IndexView | V_second

record urlpattern =
  route :: string
  view :: view
  name :: string

text \<open>\<open>gallery/urls.py\<close>.\<close>

definition gallery_app_name :: string where
  "gallery_app_name = ''gallery''"

definition gallery_urlpatterns :: "urlpattern list" where
  "gallery_urlpatterns =
     [\<lparr>route = '''', view = V_PostListView, name = ''index''\<rparr>,
      \<lparr>route = ''image_upload'', view = V_image_upload, name = ''image_upload''\<rparr>,
      \<lparr>route = ''success'', view = V_success, name = ''success''\<rparr>]"

text \<open>\<open>hello/urls.py\<close>; the commented-out first entry is not part of the table.\<close>

definition hello_app_name :: string where
  "hello_app_name = ''hello''"

definition hello_urlpatterns :: "urlpattern list" where
  "hello_urlpatterns =
     [\<lparr>route = '''', view = V_IndexView, name = ''index''\<rparr>,
      \<lparr>route = ''second/'', view = V_second, name = ''second''\<rparr>]"

text \<open>
  Resolution of a request path against an application's table. The project's own URL
  configuration, which includes each application under some literal prefix, is not part of
  the sources, so the prefix \<open>mount\<close> is a parameter. The root resolver removes the
  leading slash, the include removes the prefix, and a \<open>path()\<close> route without
  converters matches when it equals all that is left; the first match wins.
\<close>

fun strip_prefix :: "string \<Rightarrow> string \<Rightarrow> string option" where
  "strip_prefix [] ys = Some ys"
| "strip_prefix (x # xs) [] = None"
| "strip_prefix (x # xs) (y # ys) = (if x = y then strip_prefix xs ys else None)"

definition resolve :: "string \<Rightarrow> urlpattern list \<Rightarrow> string \<Rightarrow> urlpattern option" where
  "resolve mount patterns path_info =
     (case strip_prefix (CHR ''/'' # mount) path_info of
        None \<Rightarrow> None
      | Some rest \<Rightarrow> find (\<lambda>u. route u = rest) patterns)"

text \<open>
  \<open>reverse\<close> of a namespaced view name such as \<open>gallery:success\<close>: the name is split
  at the colons, everything but the last part is the namespace path, and the last part is
  looked up among the names of the application's table.
\<close>

fun split_colon :: "string \<Rightarrow> string list" where
  "split_colon [] = [[]]"
| "split_colon (c # cs) =
     (if c = CHR '':'' then [] # split_colon cs
      else (case split_colon cs of [] \<Rightarrow> [[c]] | p # ps \<Rightarrow> (c # p) # ps))"

definition reverse :: "string \<Rightarrow> urlpattern list \<Rightarrow> string \<Rightarrow> string \<Rightarrow> error + string" where
  "reverse app_name patterns mount viewname =
     (let parts = split_colon viewname in
      if butlast parts = [app_name] then
        (case find (\<lambda>u. name u = last parts) patterns of
           None \<Rightarrow> Inl NoReverseMatch
         | Some u \<Rightarrow> Inr (CHR ''/'' # mount @ route u))
      else Inl NoReverseMatch)"

section \<open>The framework shortcuts and the upload form\<close>

text \<open>\<open>render(request, template, context)\<close> answers 200 with the template and its context.\<close>

definition render :: "request \<Rightarrow> string \<Rightarrow> template_context \<Rightarrow> response" where
  "render request template_name ctx = Rendered template_name ctx"

text \<open>
  \<open>redirect(to)\<close> reverses the view name and answers 302 to the URL found. A name that
  cannot be reversed is taken for a URL when it contains a slash or a dot, and raises
  otherwise.
\<close>

definition redirect :: "string \<Rightarrow> string \<Rightarrow> error + response" where
  "redirect mount to =
     (case reverse gallery_app_name gallery_urlpatterns mount to of
        Inl e \<Rightarrow>
          (if CHR ''/'' \<in> set to \<or> CHR ''.'' \<in> set to then Inr (HttpResponseRedirect to)
           else Inl e)
      | Inr url \<Rightarrow> Inr (HttpResponseRedirect url))"

text \<open>
  \<open>gallery/forms.py\<close> is not part of the sources and the specification says that the
  form's validation rules are not shown. The form class is therefore a parameter: its
  cleaning function, which gives the validated image for a submission that passes and
  nothing for one that fails.
\<close>

type_synonym form_class = "querydict \<Rightarrow> multifiles \<Rightarrow> uploaded_file option"

definition is_valid :: "form_class \<Rightarrow> form \<Rightarrow> bool" where
  "is_valid UploadForm form =
     (case form of Unbound \<Rightarrow> False | Bound d f \<Rightarrow> UploadForm d f \<noteq> None)"

definition next_post_id :: "store \<Rightarrow> nat" where
  "next_post_id s = Suc (fold max (map post_id (posts s)) 0)"

text \<open>
  Modelled from the spec: \<open>gallery/forms.py\<close> (\<open>UploadForm\<close>) and
  \<open>gallery/models.py\<close> (\<open>Post\<close>) are missing. The form's save operation
  "writes the record and associated file to storage": one \<open>Post\<close> row with a fresh
  identity that refers to the image, and the image in the media storage. Saving a form that
  did not validate raises before anything is written.
\<close>

definition save :: "form_class \<Rightarrow> form \<Rightarrow> store \<Rightarrow> error + store" where
  "save UploadForm form s =
     (case form of
        Unbound \<Rightarrow> Inl ValueError
      | Bound d f \<Rightarrow>
          (case UploadForm d f of
             None \<Rightarrow> Inl ValueError
           | Some img \<Rightarrow>
               Inr (s\<lparr>posts := posts s @ [\<lparr>post_id = next_post_id s, image_file = file_name img\<rparr>],
                       media := media s @ [(file_name img, file_content img)]\<rparr>)))"

section \<open>The gallery views\<close>

text \<open>\<open>gallery/views.py\<close>, \<open>image_upload\<close>.\<close>

definition image_upload :: "form_class \<Rightarrow> string \<Rightarrow> request \<Rightarrow> store \<Rightarrow> outcome \<times> store" where
  "image_upload UploadForm mount request s =
     (if http_method request = ''POST'' then
        (let form = Bound (POST request) (FILES request) in
         if is_valid UploadForm form then
           (case save UploadForm form s of
              Inl e \<Rightarrow> (Raise e, s)
            | Inr s' \<Rightarrow>
                (case redirect mount ''gallery:success'' of
                   Inl e \<Rightarrow> (Raise e, s')
                 | Inr r \<Rightarrow> (Return r, s')))
         else (Return (render request ''gallery/upload.html'' [(''form'', FormV form)]), s))
      else
        (let form = Unbound in
         (Return (render request ''gallery/upload.html'' [(''form'', FormV form)]), s)))"

text \<open>\<open>gallery/views.py\<close>, \<open>success\<close>.\<close>

definition success :: "request \<Rightarrow> store \<Rightarrow> outcome \<times> store" where
  "success request s = (Return (render request ''gallery/success.html'' []), s)"

text \<open>
  \<open>gallery/views.py\<close>, \<open>PostListView\<close>: a generic list view is given by its model, its
  template and the name under which the rows are put in the context.
\<close>

datatype model_class = Post_model | Message_model

record list_view =
  model :: model_class
  template_name :: string
  context_object_name :: string

definition PostListView :: list_view where
  "PostListView =
     \<lparr>model = Post_model, template_name = ''gallery/index.html'', context_object_name = ''posts''\<rparr>"

text \<open>\<open>model.objects.all()\<close>: the rows of the model's table at the time of the query.\<close>

fun objects_all :: "model_class \<Rightarrow> store \<Rightarrow> context_value" where
  "objects_all Post_model s = PostsV (posts s)"
| "objects_all Message_model s = MessagesV (messages s)"

text \<open>
  The framework's \<open>ListView.get\<close> queries all rows and renders them under \<open>object_list\<close>
  and under the view's own context name.
\<close>

definition ListView_get :: "list_view \<Rightarrow> request \<Rightarrow> store \<Rightarrow> outcome \<times> store" where
  "ListView_get v request s =
     (let object_list = objects_all (model v) s in
      (Return (render request (template_name v)
                 [(''object_list'', object_list), (context_object_name v, object_list)]), s))"

text \<open>
  \<open>as_view()\<close> dispatches on the method: a list view has \<open>get\<close>, \<open>head\<close> (the same
  handler) and \<open>options\<close>; every other method is answered with 405.
\<close>

definition as_view :: "list_view \<Rightarrow> request \<Rightarrow> store \<Rightarrow> outcome \<times> store" where
  "as_view v request s =
     (if http_method request = ''GET'' \<or> http_method request = ''HEAD'' then ListView_get v request s
      else if http_method request = ''OPTIONS'' then (Return (HttpResponse []), s)
      else (Return (HttpResponseNotAllowed [''GET'', ''HEAD'', ''OPTIONS'']), s))"

section \<open>The hello application\<close>

text \<open>
  Modelled from the spec: \<open>hello/views.py\<close> (\<open>IndexView\<close>, \<open>second\<close>) is missing. The
  specification gives \<open>IndexView\<close> the shape of \<open>PostListView\<close>, a list view over
  \<open>Message\<close>; the template and context names are not given, so the framework's defaults
  for the model stand in for them.
\<close>

definition IndexView :: list_view where
  "IndexView =
     \<lparr>model = Message_model, template_name = ''hello/message_list.html'',
      context_object_name = ''message_list''\<rparr>"

text \<open>
  Modelled from the spec: \<open>second\<close> is a placeholder handler with no logic; it answers
  with a plain response, whose body the specification does not give, and touches nothing.
\<close>

definition second :: "request \<Rightarrow> store \<Rightarrow> outcome \<times> store" where
  "second request s = (Return (HttpResponse []), s)"


record DateTimeField =
  verbose_name :: string
  auto_now_add :: bool


definition Message_date :: DateTimeField where
  "Message_date = \<lparr>verbose_name = ''date created'', auto_now_add = True\<rparr>"

text \<open>
  The framework's \<open>pre_save\<close> of a date field: with \<open>auto_now_add\<close>, the value of a row
  that is being added is the current time, whatever the caller has put there; on a later
  save of an existing row (\<open>add\<close> false) the value on the instance is kept.
\<close>

definition pre_save :: "DateTimeField \<Rightarrow> bool \<Rightarrow> nat \<Rightarrow> nat option \<Rightarrow> nat option" where
  "pre_save field add now v = (if auto_now_add field \<and> add then Some now else v)"



text \<open>
  \<open>Message.objects.create\<close> at clock time \<open>now\<close>, from a text and the date the caller
  supplied, if any. No validator runs and the default database backend does not enforce the
  declared length of the column, so the text is stored as it is; a row without a date is
  refused by the column's not-null constraint.
\<close>

definition Message_objects_create :: "nat \<Rightarrow> string \<Rightarrow> nat option \<Rightarrow> store \<Rightarrow> error + store" where
  "Message_objects_create now text supplied s =
     (let d = pre_save Message_date True now supplied in
      if d = None then Inl IntegrityError
      else Inr (s\<lparr>messages := messages s @ [\<lparr>message_text = text, date = d\<rparr>]\<rparr>))"

section \<open>Histories of the site\<close>

text \<open>
  Everything that can happen to the store: a request dispatched to one of the five routed
  views, or the creation of a message through the model layer. A history starts from the
  empty store; an operation that raises leaves the store as it was at the point of raising.
\<close>

datatype op = Request view request | CreateMessage nat string "nat option"

definition handle :: "form_class \<Rightarrow> string \<Rightarrow> view \<Rightarrow> request \<Rightarrow> store \<Rightarrow> outcome \<times> store" where
  "handle UploadForm mount v request s =
     (case v of
        V_PostListView \<Rightarrow> as_view PostListView request s
      | V_image_upload \<Rightarrow> image_upload UploadForm mount request s
      | V_success \<Rightarrow> success request s
      | V_IndexView \<Rightarrow> as_view IndexView request s
      | V_second \<Rightarrow> second request s)"

text \<open>
  One request through an application's router: the path is resolved against the table and
  the view found is called; a path that no route matches raises.
\<close>

definition get_response ::
  "form_class \<Rightarrow> string \<Rightarrow> urlpattern list \<Rightarrow> string \<Rightarrow> request \<Rightarrow> store \<Rightarrow> outcome \<times> store" where
  "get_response UploadForm mount patterns path_info request s =
     (case resolve mount patterns path_info of
        None \<Rightarrow> (Raise Resolver404, s)
      | Some u \<Rightarrow> handle UploadForm mount (view u) request s)"

fun step :: "form_class \<Rightarrow> string \<Rightarrow> store \<Rightarrow> op \<Rightarrow> store" where
  "step UploadForm mount s (Request v request) = snd (handle UploadForm mount v request s)"
| "step UploadForm mount s (CreateMessage now text supplied) =
     (case Message_objects_create now text supplied s of Inl e \<Rightarrow> s | Inr s' \<Rightarrow> s')"

definition run :: "form_class \<Rightarrow> string \<Rightarrow> op list \<Rightarrow> store" where
  "run UploadForm mount ops = foldl (step UploadForm mount) empty_store ops"

section \<open>Sample inputs\<close>

text \<open>
  A form class that accepts a submission exactly when it carries a file under \<open>image\<close>, a
  submission that it accepts and one that it refuses.
\<close>

definition sample_form :: form_class where
  "sample_form d f = map_of f ''image''"

definition sample_file :: uploaded_file where
  "sample_file = \<lparr>file_name = ''cat.png'', file_content = ''PNG''\<rparr>"

definition sample_post :: request where
  "sample_post = \<lparr>http_method = ''POST'', POST = [], FILES = [(''image'', sample_file)]\<rparr>"

definition sample_bad_post :: request where
  "sample_bad_post = \<lparr>http_method = ''POST'', POST = [(''title'', ''cat'')], FILES = []\<rparr>"

definition sample_head :: request where
  "sample_head = \<lparr>http_method = ''HEAD'', POST = [], FILES = []\<rparr>"

section \<open>Auxiliary facts\<close>

lemma strip_prefix_append: "strip_prefix xs (xs @ ys) = Some ys"
  by (induction xs) simp_all

lemma strip_prefix_Some: "strip_prefix xs zs = Some ys \<Longrightarrow> zs = xs @ ys"
  by (induction xs zs rule: strip_prefix.induct) (auto split: if_splits)

lemma fold_max_ge: "a \<le> fold max xs (a::nat)"
  by (induction xs arbitrary: a) (auto intro: order_trans [OF max.cobounded2])

lemma fold_max_mem: "x \<in> set xs \<Longrightarrow> x \<le> fold max xs (a::nat)"
proof (induction xs arbitrary: a)
  case Nil
  then show ?case by simp
next
  case (Cons y ys)
  show ?case
  proof (cases "x = y")
    case True
    have "y \<le> max y a" by simp
    also have "\<dots> \<le> fold max ys (max y a)" by (rule fold_max_ge)
    finally show ?thesis using True by simp
  next
    case False
    with Cons.prems have "x \<in> set ys" by simp
    then show ?thesis using Cons.IH by simp
  qed
qed

lemma next_post_id_fresh: "next_post_id s \<notin> post_id ` set (posts s)"
proof
  assume "next_post_id s \<in> post_id ` set (posts s)"
  then have "next_post_id s \<in> set (map post_id (posts s))" by simp
  then have "next_post_id s \<le> fold max (map post_id (posts s)) 0" by (rule fold_max_mem)
  then show False by (simp add: next_post_id_def)
qed

lemma redirect_success:
  "redirect mount ''gallery:success'' = Inr (HttpResponseRedirect (CHR ''/'' # mount @ ''success''))"
  by (simp add: redirect_def reverse_def gallery_app_name_def gallery_urlpatterns_def)

lemma resolve_iff:
  "resolve mount patterns path_info = Some u \<longleftrightarrow>
     (\<exists>rest. path_info = CHR ''/'' # mount @ rest \<and> find (\<lambda>u. route u = rest) patterns = Some u)"
proof
  assume "resolve mount patterns path_info = Some u"
  then obtain rest where r: "strip_prefix (CHR ''/'' # mount) path_info = Some rest"
    and f: "find (\<lambda>u. route u = rest) patterns = Some u"
    by (auto simp: resolve_def split: option.splits)
  from strip_prefix_Some [OF r] have "path_info = CHR ''/'' # mount @ rest" by simp
  with f show "\<exists>rest. path_info = CHR ''/'' # mount @ rest \<and> find (\<lambda>u. route u = rest) patterns = Some u"
    by blast
next
  assume "\<exists>rest. path_info = CHR ''/'' # mount @ rest \<and> find (\<lambda>u. route u = rest) patterns = Some u"
  then obtain rest where p: "path_info = (CHR ''/'' # mount) @ rest"
    and f: "find (\<lambda>u. route u = rest) patterns = Some u" by auto
  have "strip_prefix (CHR ''/'' # mount) ((CHR ''/'' # mount) @ rest) = Some rest"
    by (rule strip_prefix_append)
  with p f show "resolve mount patterns path_info = Some u"
    by (simp add: resolve_def)
qed

lemma resolve_mounted:
  "resolve mount patterns (CHR ''/'' # mount @ rest) = find (\<lambda>u. route u = rest) patterns"
proof -
  have "strip_prefix (CHR ''/'' # mount) ((CHR ''/'' # mount) @ rest) = Some rest"
    by (rule strip_prefix_append)
  then show ?thesis by (simp add: resolve_def)
qed

lemma resolve_unmounted:
  "\<forall>rest. path_info \<noteq> CHR ''/'' # mount @ rest \<Longrightarrow> resolve mount patterns path_info = None"
  using resolve_iff [of mount patterns path_info] by (cases "resolve mount patterns path_info") auto

lemma resolve_gallery:
  "resolve mount gallery_urlpatterns path_info =
     (if path_info = CHR ''/'' # mount
        then Some \<lparr>route = '''', view = V_PostListView, name = ''index''\<rparr>
      else if path_info = CHR ''/'' # mount @ ''image_upload''
        then Some \<lparr>route = ''image_upload'', view = V_image_upload, name = ''image_upload''\<rparr>
      else if path_info = CHR ''/'' # mount @ ''success''
        then Some \<lparr>route = ''success'', view = V_success, name = ''success''\<rparr>
      else None)"
proof (cases "\<exists>rest. path_info = CHR ''/'' # mount @ rest")
  case True
  then obtain rest where p: "path_info = CHR ''/'' # mount @ rest" by blast
  show ?thesis unfolding p resolve_mounted by (simp add: gallery_urlpatterns_def)
next
  case False
  then have n: "\<forall>rest. path_info \<noteq> CHR ''/'' # mount @ rest" by blast
  from n [rule_format, of "''''"] n [rule_format, of "''image_upload''"] n [rule_format, of "''success''"]
  show ?thesis using resolve_unmounted [OF n] by simp
qed

lemma resolve_hello:
  "resolve mount hello_urlpatterns path_info =
     (if path_info = CHR ''/'' # mount
        then Some \<lparr>route = '''', view = V_IndexView, name = ''index''\<rparr>
      else if path_info = CHR ''/'' # mount @ ''second/''
        then Some \<lparr>route = ''second/'', view = V_second, name = ''second''\<rparr>
      else None)"
proof (cases "\<exists>rest. path_info = CHR ''/'' # mount @ rest")
  case True
  then obtain rest where p: "path_info = CHR ''/'' # mount @ rest" by blast
  show ?thesis unfolding p resolve_mounted by (simp add: hello_urlpatterns_def)
next
  case False
  then have n: "\<forall>rest. path_info \<noteq> CHR ''/'' # mount @ rest" by blast
  from n [rule_format, of "''''"] n [rule_format, of "''second/''"]
  show ?thesis using resolve_unmounted [OF n] by simp
qed

section \<open>The upload handler\<close>

text \<open>
  Claim C1. A POST to \<open>image_upload\<close> whose submission the form accepts stores exactly
  one new \<open>Post\<close>: the rows after the request are the rows before it followed by one
  row, whose identity no earlier row has and which refers to the validated image; the image
  is written to the media storage; and the answer is a redirect (302) to the URL that the
  gallery table resolves to the \<open>success\<close> view, under whatever prefix the application
  is mounted.
\<close>

theorem image_upload_valid_post:
  assumes "http_method request = ''POST''"
    and "is_valid UploadForm (Bound (POST request) (FILES request))"
  shows "\<exists>img. UploadForm (POST request) (FILES request) = Some img \<and>
           image_upload UploadForm mount request s =
             (Return (HttpResponseRedirect (CHR ''/'' # mount @ ''success'')),
              s\<lparr>posts := posts s @ [\<lparr>post_id = next_post_id s, image_file = file_name img\<rparr>],
                media := media s @ [(file_name img, file_content img)]\<rparr>) \<and>
           next_post_id s \<notin> post_id ` set (posts s) \<and>
           status_code (HttpResponseRedirect (CHR ''/'' # mount @ ''success'')) = 302 \<and>
           map_option view (resolve mount gallery_urlpatterns (CHR ''/'' # mount @ ''success''))
             = Some V_success"
proof -
  from assms(2) obtain img where img: "UploadForm (POST request) (FILES request) = Some img"
    by (auto simp: is_valid_def)
  have up: "image_upload UploadForm mount request s =
             (Return (HttpResponseRedirect (CHR ''/'' # mount @ ''success'')),
              s\<lparr>posts := posts s @ [\<lparr>post_id = next_post_id s, image_file = file_name img\<rparr>],
                media := media s @ [(file_name img, file_content img)]\<rparr>)"
    using assms img by (simp add: image_upload_def save_def redirect_success)
  have "strip_prefix (CHR ''/'' # mount) ((CHR ''/'' # mount) @ ''success'') = Some ''success''"
    by (rule strip_prefix_append)
  then have res: "map_option view (resolve mount gallery_urlpatterns (CHR ''/'' # mount @ ''success''))
             = Some V_success"
    by (simp add: resolve_def gallery_urlpatterns_def)
  show ?thesis using img up res next_post_id_fresh by simp
qed

theorem image_upload_valid_post_witness:
  "http_method sample_post = ''POST'' \<and>
   is_valid sample_form (Bound (POST sample_post) (FILES sample_post)) \<and>
   image_upload sample_form ''gallery/'' sample_post empty_store =
     (Return (HttpResponseRedirect ''/gallery/success''),
      \<lparr>posts = [\<lparr>post_id = 1, image_file = ''cat.png''\<rparr>], messages = [],
       media = [(''cat.png'', ''PNG'')]\<rparr>)"
proof -
  have m: "http_method sample_post = ''POST''" by (simp add: sample_post_def)
  have v: "is_valid sample_form (Bound (POST sample_post) (FILES sample_post))"
    by (simp add: is_valid_def sample_form_def sample_post_def)
  from image_upload_valid_post [OF m v, of "''gallery/''" empty_store]
  show ?thesis using m v
    by (simp add: sample_form_def sample_post_def sample_file_def empty_store_def next_post_id_def)
qed

text \<open>
  Claim C2. A POST to \<open>image_upload\<close> whose submission the form refuses is answered
  with status 200 by the upload template, rendered with the bound form, and the store is
  returned as it was: no \<open>Post\<close> is created.
\<close>

theorem image_upload_invalid_post:
  assumes "http_method request = ''POST''"
    and "\<not> is_valid UploadForm (Bound (POST request) (FILES request))"
  shows "image_upload UploadForm mount request s =
           (Return (Rendered ''gallery/upload.html''
                      [(''form'', FormV (Bound (POST request) (FILES request)))]), s) \<and>
         status_code (Rendered ''gallery/upload.html''
                      [(''form'', FormV (Bound (POST request) (FILES request)))]) = 200"
  using assms by (simp add: image_upload_def render_def)

theorem image_upload_invalid_post_witness:
  "http_method sample_bad_post = ''POST'' \<and>
   \<not> is_valid sample_form (Bound (POST sample_bad_post) (FILES sample_bad_post)) \<and>
   image_upload sample_form ''gallery/'' sample_bad_post empty_store =
     (Return (Rendered ''gallery/upload.html'' [(''form'', FormV (Bound [(''title'', ''cat'')] []))]),
      empty_store)"
proof -
  have m: "http_method sample_bad_post = ''POST''" by (simp add: sample_bad_post_def)
  have v: "\<not> is_valid sample_form (Bound (POST sample_bad_post) (FILES sample_bad_post))"
    by (simp add: is_valid_def sample_form_def sample_bad_post_def)
  from image_upload_invalid_post [OF m v, of "''gallery/''" empty_store]
  show ?thesis using m v by (simp add: sample_bad_post_def)
qed

text \<open>
  Claim C4. A GET to \<open>image_upload\<close>, whatever else the request carries, builds the
  unbound form and is answered with status 200 by the upload template rendered with it; the
  store is returned as it was.
\<close>

theorem image_upload_get:
  "image_upload UploadForm mount (request\<lparr>http_method := ''GET''\<rparr>) s =
     (Return (Rendered ''gallery/upload.html'' [(''form'', FormV Unbound)]), s) \<and>
   status_code (Rendered ''gallery/upload.html'' [(''form'', FormV Unbound)]) = 200"
  by (simp add: image_upload_def render_def)

text \<open>
  Claim C10. Any request to \<open>image_upload\<close> whose method is not \<open>POST\<close> takes the
  same path as a GET: the unbound form is rendered by the upload template, the store is
  unchanged (so no \<open>Post\<close> is created) and the answer is not a redirect.
\<close>

theorem image_upload_not_post:
  assumes "http_method request \<noteq> ''POST''"
  shows "image_upload UploadForm mount request s =
           (Return (Rendered ''gallery/upload.html'' [(''form'', FormV Unbound)]), s)"
  using assms by (simp add: image_upload_def render_def)

theorem image_upload_not_post_witness:
  "http_method sample_head \<noteq> ''POST'' \<and>
   image_upload sample_form ''gallery/'' sample_head empty_store =
     (Return (Rendered ''gallery/upload.html'' [(''form'', FormV Unbound)]), empty_store)"
proof -
  have m: "http_method sample_head \<noteq> ''POST''" by (simp add: sample_head_def)
  from image_upload_not_post [OF m, of sample_form "''gallery/''" empty_store]
  show ?thesis using m by simp
qed

section \<open>The list views and the success page\<close>

text \<open>
  Claim C5. In every state of the store, a GET to a list view renders the rows stored at
  that moment and nothing else: \<open>PostListView\<close> passes exactly the stored posts to its
  template and \<open>IndexView\<close> exactly the stored messages, each read from the store the
  request finds, which the request leaves as it was.
\<close>

theorem list_views_show_store:
  "as_view PostListView (request\<lparr>http_method := ''GET''\<rparr>) s =
     (Return (Rendered ''gallery/index.html''
                [(''object_list'', PostsV (posts s)), (''posts'', PostsV (posts s))]), s) \<and>
   as_view IndexView (request\<lparr>http_method := ''GET''\<rparr>) s =
     (Return (Rendered ''hello/message_list.html''
                [(''object_list'', MessagesV (messages s)),
                 (''message_list'', MessagesV (messages s))]), s)"
  by (simp add: as_view_def ListView_get_def PostListView_def IndexView_def render_def Let_def)

text \<open>
  Claim C6. For every request and every store, \<open>success\<close> returns the success
  template rendered with an empty context, with status 200.
\<close>

theorem success_renders:
  "fst (success request s) = Return (Rendered ''gallery/success.html'' []) \<and>
   status_code (Rendered ''gallery/success.html'' []) = 200"
  by (simp add: success_def render_def)

text \<open>
  Claim C7. \<open>success\<close> only renders: the store it returns, that is every post, every
  message and every media file, is the store it was given.
\<close>

theorem success_frame: "snd (success request s) = s"
  by (simp add: success_def)

section \<open>The routers\<close>

lemma get_response_gallery:
  "get_response UploadForm mount gallery_urlpatterns path_info request s =
     (if path_info = CHR ''/'' # mount then as_view PostListView request s
      else if path_info = CHR ''/'' # mount @ ''image_upload''
        then image_upload UploadForm mount request s
      else if path_info = CHR ''/'' # mount @ ''success'' then success request s
      else (Raise Resolver404, s))"
  unfolding get_response_def resolve_gallery by (simp add: handle_def)

lemma get_response_hello:
  "get_response UploadForm mount hello_urlpatterns path_info request s =
     (if path_info = CHR ''/'' # mount then as_view IndexView request s
      else if path_info = CHR ''/'' # mount @ ''second/'' then second request s
      else (Raise Resolver404, s))"
  unfolding get_response_def resolve_hello by (simp add: handle_def)

text \<open>
  Claim C8. The URL surface. Paths are taken relative to the place where the project mounts
  the application, with the leading slash that the root resolver removes. The gallery table
  sends \<open>/\<close> to the post list view as \<open>index\<close>, \<open>/image_upload\<close> to
  \<open>image_upload\<close> and \<open>/success\<close> to \<open>success\<close>; the hello table sends \<open>/\<close>
  to the message list view as \<open>index\<close> and \<open>/second/\<close> to \<open>second\<close>; every other
  path resolves to nothing in these tables, which have three and two entries under the
  application names \<open>gallery\<close> and \<open>hello\<close>. A request through a router is answered
  by the handler of its route itself: the post list, the upload handler, the success page,
  the message list and the placeholder, each with what that handler returns, and a path
  outside the table raises. The upload route answers both GET and POST and the success
  route answers GET.
\<close>

theorem url_tables:
  "resolve mount gallery_urlpatterns path_info =
     (if path_info = CHR ''/'' # mount
        then Some \<lparr>route = '''', view = V_PostListView, name = ''index''\<rparr>
      else if path_info = CHR ''/'' # mount @ ''image_upload''
        then Some \<lparr>route = ''image_upload'', view = V_image_upload, name = ''image_upload''\<rparr>
      else if path_info = CHR ''/'' # mount @ ''success''
        then Some \<lparr>route = ''success'', view = V_success, name = ''success''\<rparr>
      else None) \<and>
   resolve mount hello_urlpatterns path_info =
     (if path_info = CHR ''/'' # mount
        then Some \<lparr>route = '''', view = V_IndexView, name = ''index''\<rparr>
      else if path_info = CHR ''/'' # mount @ ''second/''
        then Some \<lparr>route = ''second/'', view = V_second, name = ''second''\<rparr>
      else None) \<and>
   gallery_app_name = ''gallery'' \<and> hello_app_name = ''hello'' \<and>
   length gallery_urlpatterns = 3 \<and> length hello_urlpatterns = 2 \<and>
   fst (handle UploadForm mount V_image_upload (request\<lparr>http_method := ''GET''\<rparr>) s)
     = Return (Rendered ''gallery/upload.html'' [(''form'', FormV Unbound)]) \<and>
   (\<exists>r. fst (handle UploadForm mount V_image_upload (request\<lparr>http_method := ''POST''\<rparr>) s) = Return r \<and>
        status_code r \<noteq> 405) \<and>
   fst (handle UploadForm mount V_success (request\<lparr>http_method := ''GET''\<rparr>) s)
     = Return (Rendered ''gallery/success.html'' []) \<and>
   get_response UploadForm mount gallery_urlpatterns path_info request s =
     (if path_info = CHR ''/'' # mount then as_view PostListView request s
      else if path_info = CHR ''/'' # mount @ ''image_upload''
        then image_upload UploadForm mount request s
      else if path_info = CHR ''/'' # mount @ ''success'' then success request s
      else (Raise Resolver404, s)) \<and>
   get_response UploadForm mount hello_urlpatterns path_info request s =
     (if path_info = CHR ''/'' # mount then as_view IndexView request s
      else if path_info = CHR ''/'' # mount @ ''second/'' then second request s
      else (Raise Resolver404, s)) \<and>
   get_response UploadForm mount gallery_urlpatterns (CHR ''/'' # mount)
       (request\<lparr>http_method := ''GET''\<rparr>) s =
     (Return (Rendered ''gallery/index.html''
                [(''object_list'', PostsV (posts s)), (''posts'', PostsV (posts s))]), s) \<and>
   get_response UploadForm mount gallery_urlpatterns (CHR ''/'' # mount @ ''image_upload'')
       (request\<lparr>http_method := ''GET''\<rparr>) s =
     (Return (Rendered ''gallery/upload.html'' [(''form'', FormV Unbound)]), s) \<and>
   get_response UploadForm mount gallery_urlpatterns (CHR ''/'' # mount @ ''success'')
       (request\<lparr>http_method := ''GET''\<rparr>) s =
     (Return (Rendered ''gallery/success.html'' []), s) \<and>
   get_response UploadForm mount hello_urlpatterns (CHR ''/'' # mount)
       (request\<lparr>http_method := ''GET''\<rparr>) s =
     (Return (Rendered ''hello/message_list.html''
                [(''object_list'', MessagesV (messages s)),
                 (''message_list'', MessagesV (messages s))]), s) \<and>
   get_response UploadForm mount hello_urlpatterns (CHR ''/'' # mount @ ''second/'')
       (request\<lparr>http_method := ''GET''\<rparr>) s =
     (Return (HttpResponse []), s)"
proof -
  have a: "fst (handle UploadForm mount V_image_upload (request\<lparr>http_method := ''GET''\<rparr>) s)
     = Return (Rendered ''gallery/upload.html'' [(''form'', FormV Unbound)])"
    by (simp add: handle_def image_upload_def render_def)
  have b: "\<exists>r. fst (handle UploadForm mount V_image_upload (request\<lparr>http_method := ''POST''\<rparr>) s) = Return r \<and>
        status_code r \<noteq> 405"
    by (cases "UploadForm (POST request) (FILES request)")
       (simp_all add: handle_def image_upload_def render_def save_def is_valid_def redirect_success)
  have c: "fst (handle UploadForm mount V_success (request\<lparr>http_method := ''GET''\<rparr>) s)
     = Return (Rendered ''gallery/success.html'' [])"
    by (simp add: handle_def success_def render_def)
  have d: "length gallery_urlpatterns = 3" "length hello_urlpatterns = 2"
    by (simp_all add: gallery_urlpatterns_def hello_urlpatterns_def)
  have g1: "get_response UploadForm mount gallery_urlpatterns (CHR ''/'' # mount)
       (request\<lparr>http_method := ''GET''\<rparr>) s =
     (Return (Rendered ''gallery/index.html''
                [(''object_list'', PostsV (posts s)), (''posts'', PostsV (posts s))]), s)"
    unfolding get_response_gallery
    by (simp add: as_view_def ListView_get_def PostListView_def render_def Let_def)
  have g2: "get_response UploadForm mount gallery_urlpatterns (CHR ''/'' # mount @ ''image_upload'')
       (request\<lparr>http_method := ''GET''\<rparr>) s =
     (Return (Rendered ''gallery/upload.html'' [(''form'', FormV Unbound)]), s)"
    unfolding get_response_gallery by (simp add: image_upload_def render_def)
  have g3: "get_response UploadForm mount gallery_urlpatterns (CHR ''/'' # mount @ ''success'')
       (request\<lparr>http_method := ''GET''\<rparr>) s =
     (Return (Rendered ''gallery/success.html'' []), s)"
    unfolding get_response_gallery by (simp add: success_def render_def)
  have h1: "get_response UploadForm mount hello_urlpatterns (CHR ''/'' # mount)
       (request\<lparr>http_method := ''GET''\<rparr>) s =
     (Return (Rendered ''hello/message_list.html''
                [(''object_list'', MessagesV (messages s)),
                 (''message_list'', MessagesV (messages s))]), s)"
    unfolding get_response_hello
    by (simp add: as_view_def ListView_get_def IndexView_def render_def Let_def)
  have h2: "get_response UploadForm mount hello_urlpatterns (CHR ''/'' # mount @ ''second/'')
       (request\<lparr>http_method := ''GET''\<rparr>) s =
     (Return (HttpResponse []), s)"
    unfolding get_response_hello by (simp add: second_def)
  show ?thesis
    using a b c d g1 g2 g3 h1 h2
      resolve_gallery [of mount path_info] resolve_hello [of mount path_info]
      get_response_gallery [of UploadForm mount path_info request s]
      get_response_hello [of UploadForm mount path_info request s]
    by (simp only: gallery_app_name_def hello_app_name_def simp_thms)
qed

section \<open>Invariants of the store\<close>

lemma run_snoc: "run UploadForm mount (ops @ [x]) = step UploadForm mount (run UploadForm mount ops) x"
  by (simp add: run_def)

lemma run_Nil: "run UploadForm mount [] = empty_store"
  by (simp add: run_def)

lemma as_view_store: "snd (as_view v request s) = s"
  by (simp add: as_view_def ListView_get_def Let_def)

lemma image_upload_posts:
  "posts (snd (image_upload UploadForm mount request s)) = posts s \<or>
   (\<exists>img. http_method request = ''POST'' \<and> UploadForm (POST request) (FILES request) = Some img \<and>
          posts (snd (image_upload UploadForm mount request s)) =
            posts s @ [\<lparr>post_id = next_post_id s, image_file = file_name img\<rparr>])"
  by (cases "UploadForm (POST request) (FILES request)")
     (simp_all add: image_upload_def is_valid_def save_def redirect_success render_def)

lemma handle_posts:
  "posts (snd (handle UploadForm mount v request s)) = posts s \<or>
   (\<exists>img. v = V_image_upload \<and> http_method request = ''POST'' \<and>
          UploadForm (POST request) (FILES request) = Some img \<and>
          posts (snd (handle UploadForm mount v request s)) =
            posts s @ [\<lparr>post_id = next_post_id s, image_file = file_name img\<rparr>])"
proof (cases v)
  case V_image_upload
  then show ?thesis
    using image_upload_posts [of UploadForm mount request s] by (simp add: handle_def)
qed (simp_all add: handle_def as_view_store success_def second_def)

lemma create_posts:
  "posts (step UploadForm mount s (CreateMessage now body supplied)) = posts s"
  by (simp add: Message_objects_create_def Let_def)

text \<open>
  Claim C3. In every store that a history of requests and message creations reaches from
  the empty store, each \<open>Post\<close> row was written by a POST to \<open>image_upload\<close> that
  occurs in the history and whose bound form passed validation, and the row refers to the
  image that this validation produced. No other operation adds a \<open>Post\<close>.
\<close>

theorem stored_posts_validated:
  assumes "p \<in> set (posts (run UploadForm mount ops))"
  shows "\<exists>request img. Request V_image_upload request \<in> set ops \<and>
           http_method request = ''POST'' \<and>
           is_valid UploadForm (Bound (POST request) (FILES request)) \<and>
           UploadForm (POST request) (FILES request) = Some img \<and>
           image_file p = file_name img"
  using assms
proof (induction ops arbitrary: p rule: rev_induct)
  case Nil
  then show ?case by (simp add: run_Nil empty_store_def)
next
  case (snoc x ops)
  let ?s = "run UploadForm mount ops"
  show ?case
  proof (cases "p \<in> set (posts ?s)")
    case True
    from snoc.IH [OF True] show ?thesis by auto
  next
    case False
    show ?thesis
    proof (cases x)
      case (Request v request)
      from False snoc.prems have new: "posts (snd (handle UploadForm mount v request ?s)) \<noteq> posts ?s"
        by (auto simp: run_snoc Request)
      with handle_posts [of UploadForm mount v request ?s]
      obtain img where v: "v = V_image_upload" and m: "http_method request = ''POST''"
        and c: "UploadForm (POST request) (FILES request) = Some img"
        and ps: "posts (snd (handle UploadForm mount v request ?s)) =
            posts ?s @ [\<lparr>post_id = next_post_id ?s, image_file = file_name img\<rparr>]"
        by auto
      from snoc.prems False ps have "image_file p = file_name img"
        by (auto simp: run_snoc Request)
      moreover have "is_valid UploadForm (Bound (POST request) (FILES request))"
        using c by (simp add: is_valid_def)
      moreover have "Request V_image_upload request \<in> set (ops @ [x])"
        using v Request by simp
      ultimately show ?thesis using m c by blast
    next
      case (CreateMessage now body supplied)
      with False snoc.prems show ?thesis
        using create_posts [of UploadForm mount ?s now body supplied] by (simp add: run_snoc)
    qed
  qed
qed

theorem stored_posts_validated_witness:
  "\<lparr>post_id = 1, image_file = ''cat.png''\<rparr>
     \<in> set (posts (run sample_form ''gallery/''
                [Request V_image_upload sample_bad_post, Request V_image_upload sample_post])) \<and>
   (\<exists>request img. Request V_image_upload request
        \<in> set [Request V_image_upload sample_bad_post, Request V_image_upload sample_post] \<and>
      http_method request = ''POST'' \<and>
      is_valid sample_form (Bound (POST request) (FILES request)) \<and>
      sample_form (POST request) (FILES request) = Some img \<and>
      image_file \<lparr>post_id = 1, image_file = ''cat.png''\<rparr> = file_name img)"
proof -
  have h: "\<lparr>post_id = 1, image_file = ''cat.png''\<rparr>
     \<in> set (posts (run sample_form ''gallery/''
                [Request V_image_upload sample_bad_post, Request V_image_upload sample_post]))"
    by (simp add: run_def handle_def image_upload_def is_valid_def save_def redirect_success
          render_def sample_form_def sample_post_def sample_bad_post_def sample_file_def
          empty_store_def next_post_id_def)
  from stored_posts_validated [OF h] h show ?thesis by blast
qed

section \<open>The fields of a message\<close>



end
